theory Spec2Isabelle
  imports Complex_Main "HOL-Library.Sublist"
begin

section \<open>Errors\<close>

text \<open>
  Every \<^verbatim>\<open>raise HTTPException(status_code=...)\<close> of the routers and every Python
  exception the analytics code can run into is a value of this type. A handler returns
  \<open>error + 'a\<close>, with \<open>Inl\<close> for the failure.
\<close>

datatype error =
    HTTP_403_FORBIDDEN
  | HTTP_404_NOT_FOUND
  | IndexError
  | KeyError
  | ZeroDivisionError
  | ValueError

section \<open>Identity and permission check (services/auth\_service.py)\<close>

text \<open>
  \<^verbatim>\<open>database/models.py: class User\<close>. The columns \<^verbatim>\<open>role\<close> (a String) and
  \<^verbatim>\<open>is_superuser\<close> (a Boolean) are nullable, so each is an option: \<open>None\<close> is SQL NULL,
  Python's \<^verbatim>\<open>None\<close>.
\<close>

record User =
  user_id :: int
  email :: string
  is_active :: bool
  is_superuser :: "bool option"
  role :: "string option"

text \<open>
  \<^verbatim>\<open>return user.role == required_role or user.is_superuser\<close>.
  Python's \<^verbatim>\<open>a or b\<close> is \<^verbatim>\<open>a\<close> when \<^verbatim>\<open>a\<close> is truthy and \<^verbatim>\<open>b\<close> otherwise, so the
  value returned is \<^verbatim>\<open>True\<close> or the flag as stored (\<^verbatim>\<open>True\<close>, \<^verbatim>\<open>False\<close> or \<^verbatim>\<open>None\<close>).
\<close>

definition check_permissions :: "User \<Rightarrow> string \<Rightarrow> bool option" where
  "check_permissions user required_role =
     (if role user = Some required_role then Some True else is_superuser user)"

text \<open>Truthiness of the returned value, as \<^verbatim>\<open>if not check_permissions(...)\<close> reads it.\<close>

definition truthy :: "bool option \<Rightarrow> bool" where
  "truthy v = (v = Some True)"

section \<open>Entity store access (crm/router.py, erp/router.py)\<close>

text \<open>
  A column value; a loaded ORM row maps attribute names to values; a table maps the
  integer primary key to its row, so that
  \<^verbatim>\<open>db.query(T).filter(T.id == i).first()\<close> is the lookup \<open>db i\<close>.
\<close>

datatype val = VNone | VStr string | VInt int | VFloat real | VTime int

type_synonym row = "string \<rightharpoonup> val"

type_synonym table = "int \<rightharpoonup> row"

definition lead_columns :: "string list" where
  "lead_columns = [''id'', ''email'', ''name'', ''company'', ''phone'', ''status'',
     ''source'', ''score'', ''metadata'', ''created_at'', ''updated_at'']"

definition task_columns :: "string list" where
  "task_columns = [''id'', ''title'', ''description'', ''status'', ''priority'',
     ''assigned_to'', ''due_date'', ''metadata'', ''created_at'', ''updated_at'']"

text \<open>\<^verbatim>\<open>getattr(obj, name, None)\<close>.\<close>

definition getattr :: "row \<Rightarrow> string \<Rightarrow> val" where
  "getattr obj name = (case obj name of None \<Rightarrow> VNone | Some v \<Rightarrow> v)"

text \<open>
  \<^verbatim>\<open>for field, value in payload.dict(exclude_unset=True).items(): setattr(obj, field, value)\<close>.
  The payload is the dictionary of the fields the request sets, in its iteration order.
\<close>

definition apply_payload :: "(string \<times> val) list \<Rightarrow> row \<Rightarrow> row" where
  "apply_payload payload obj = fold (\<lambda>(field, value) r. r(field \<mapsto> value)) payload obj"

text \<open>
  \<^verbatim>\<open>db.commit(); db.refresh(obj)\<close>. The models declare
  \<^verbatim>\<open>updated_at = Column(DateTime, default=datetime.utcnow, onupdate=datetime.utcnow)\<close>:
  when a column of the row differs from its loaded value an UPDATE is written and
  \<^verbatim>\<open>updated_at\<close> becomes the current time.
\<close>

definition commit_refresh :: "string list \<Rightarrow> int \<Rightarrow> row \<Rightarrow> row \<Rightarrow> row" where
  "commit_refresh columns now loaded obj =
     (if list_ex (\<lambda>c. obj c \<noteq> loaded c) columns
      then obj(''updated_at'' \<mapsto> VTime now) else obj)"

text \<open>\<^verbatim>\<open>crm/router.py: get_lead\<close> and \<^verbatim>\<open>erp/router.py: get_task\<close>.\<close>

definition get_lead :: "User \<Rightarrow> table \<Rightarrow> int \<Rightarrow> error + row" where
  "get_lead current_user db lead_id =
     (case db lead_id of
        None \<Rightarrow> Inl HTTP_404_NOT_FOUND
      | Some lead \<Rightarrow> Inr lead)"

definition get_task :: "User \<Rightarrow> table \<Rightarrow> int \<Rightarrow> error + row" where
  "get_task current_user db task_id =
     (case db task_id of
        None \<Rightarrow> Inl HTTP_404_NOT_FOUND
      | Some task \<Rightarrow> Inr task)"

text \<open>
  \<^verbatim>\<open>erp/router.py: update_task\<close>. The result is the refreshed row and the table after
  the commit.
\<close>

definition update_task ::
  "int \<Rightarrow> User \<Rightarrow> table \<Rightarrow> int \<Rightarrow> (string \<times> val) list \<Rightarrow> error + (row \<times> table)" where
  "update_task now current_user db task_id task_update =
     (if \<not> truthy (check_permissions current_user ''manager'') then Inl HTTP_403_FORBIDDEN
      else case db task_id of
        None \<Rightarrow> Inl HTTP_404_NOT_FOUND
      | Some loaded \<Rightarrow>
          let db_task = apply_payload task_update loaded;
              db_task = commit_refresh task_columns now loaded db_task
          in Inr (db_task, db(task_id \<mapsto> db_task)))"

text \<open>
  \<^verbatim>\<open>crm/router.py: update_lead\<close>. \<open>generate_lead_score\<close> is the external generation
  provider behind \<^verbatim>\<open>ai_service.generate_lead_score\<close>
  (\<^verbatim>\<open>float(response.strip())\<close>, which raises when the text is not a number): a
  parameter of the model, from the \<^verbatim>\<open>lead_data\<close> dictionary to a score or an error.
  An exception there leaves the handler before \<^verbatim>\<open>db.commit()\<close>.
\<close>

definition update_lead ::
  "((string \<times> val) list \<Rightarrow> error + real) \<Rightarrow> int \<Rightarrow> User \<Rightarrow> table \<Rightarrow> int \<Rightarrow>
     (string \<times> val) list \<Rightarrow> error + (row \<times> table)" where
  "update_lead generate_lead_score now current_user db lead_id lead_update =
     (if \<not> truthy (check_permissions current_user ''sales'') then Inl HTTP_403_FORBIDDEN
      else case db lead_id of
        None \<Rightarrow> Inl HTTP_404_NOT_FOUND
      | Some loaded \<Rightarrow>
          let db_lead = apply_payload lead_update loaded in
          if list_ex (\<lambda>field. field \<in> set (map fst lead_update)) [''company'', ''industry'']
          then
            let lead_data = [(''email'', getattr db_lead ''email''),
                             (''name'', getattr db_lead ''name''),
                             (''company'', getattr db_lead ''company''),
                             (''industry'', getattr db_lead ''industry'')]
            in case generate_lead_score lead_data of
                 Inl e \<Rightarrow> Inl e
               | Inr score \<Rightarrow>
                   let db_lead = db_lead(''score'' \<mapsto> VFloat score);
                       db_lead = commit_refresh lead_columns now loaded db_lead
                   in Inr (db_lead, db(lead_id \<mapsto> db_lead))
          else
            let db_lead = commit_refresh lead_columns now loaded db_lead
            in Inr (db_lead, db(lead_id \<mapsto> db_lead)))"

section \<open>Deterministic analytics (app/services/ai\_service.py)\<close>

subsection \<open>Float values\<close>












subsection \<open>The pandas operations the forecast uses\<close>






subsection \<open>Forecast factors\<close>






subsection \<open>ERP entities (app/models/erp.py)\<close>

datatype UserRole = ADMIN | FINANCE_MANAGER | HR_MANAGER | OPERATIONS_MANAGER

datatype TransactionType = INCOME | EXPENSE

datatype TransactionCategory = SALARIES | RENT | MARKETING | INVENTORY | UTILITIES | OTHER

text \<open>
  A transaction, with the columns the analytics read. \<open>month\<close> is the calendar month of
  \<^verbatim>\<open>date\<close>, the value of \<^verbatim>\<open>df['date'].dt.to_period('M')\<close>, counted in months.
\<close>

record Transaction =
  amount :: real
  type :: TransactionType
  category :: TransactionCategory
  month :: int

text \<open>Datetimes are seconds on the UTC time line.\<close>

record Employee =
  hire_date :: int

record Invoice =
  due_date :: int
  status :: string

record erp_db =
  transactions :: "Transaction list"
  employees :: "Employee list"
  invoices :: "Invoice list"

text \<open>
  \<^verbatim>\<open>AIRecommendation\<close>. The f-strings of the source interpolate a category, a percentage
  or a count; the message and the action items keep those values instead of the rendered
  text.
\<close>

datatype message =
    HighSpending TransactionCategory real
  | LowAverageTenure
  | OverdueInvoices nat

datatype action_item = ReviewCategoryExpenses TransactionCategory | Action string

record AIRecommendation =
  rtype :: string
  message :: message
  impact :: string
  priority :: string
  action_items :: "action_item list"


subsection \<open>The forecast\<close>




subsection \<open>Recommendations\<close>

text \<open>
  \<^verbatim>\<open>category_totals[c] = category_totals.get(c, 0) + amount\<close> on a dictionary that keeps
  its keys in the order of their first insertion.
\<close>

fun dict_add :: "('k \<times> real) list \<Rightarrow> 'k \<Rightarrow> real \<Rightarrow> ('k \<times> real) list" where
  "dict_add [] k v = [(k, 0 + v)]"
| "dict_add ((k', x) # d) k v =
     (if k' = k then (k', x + v) # d else (k', x) # dict_add d k v)"

definition category_totals :: "Transaction list \<Rightarrow> (TransactionCategory \<times> real) list" where
  "category_totals expenses =
     fold (\<lambda>expense totals. dict_add totals (category expense) (amount expense)) expenses []"

definition expense_recommendation :: "TransactionCategory \<Rightarrow> real \<Rightarrow> AIRecommendation" where
  "expense_recommendation c percentage =
     \<lparr>rtype = ''expense_optimization'', message = HighSpending c percentage,
      impact = ''medium'', priority = ''high'',
      action_items = [ReviewCategoryExpenses c,
        Action ''Consider negotiating better rates with vendors'',
        Action ''Implement budget controls for this category'']\<rparr>"

text \<open>
  The loop over \<^verbatim>\<open>category_totals.items()\<close>. \<^verbatim>\<open>amount / total_expenses\<close> divides Python
  floats, which raises ZeroDivisionError on a zero divisor.
\<close>

fun high_spending ::
  "real \<Rightarrow> (TransactionCategory \<times> real) list \<Rightarrow> AIRecommendation list \<Rightarrow>
     error + AIRecommendation list" where
  "high_spending total_expenses [] recommendations = Inr recommendations"
| "high_spending total_expenses ((c, a) # items) recommendations =
     (if total_expenses = 0 then Inl ZeroDivisionError
      else
        let percentage = a / total_expenses
        in if percentage > 3 / 10
           then high_spending total_expenses items
                  (recommendations @ [expense_recommendation c percentage])
           else high_spending total_expenses items recommendations)"

text \<open>\<^verbatim>\<open>AIService._analyze_expenses\<close>.\<close>

definition analyze_expenses :: "Transaction list \<Rightarrow> error + AIRecommendation list" where
  "analyze_expenses txs =
     (let expenses = filter (\<lambda>t. type t = EXPENSE) txs;
          totals = category_totals expenses;
          total_expenses = sum_list (map snd totals)
      in high_spending total_expenses totals [])"

definition retention_recommendation :: AIRecommendation where
  "retention_recommendation =
     \<lparr>rtype = ''employee_retention'', message = LowAverageTenure,
      impact = ''high'', priority = ''medium'',
      action_items = [Action ''Review compensation and benefits package'',
        Action ''Implement employee engagement programs'',
        Action ''Conduct exit interviews to identify issues'']\<rparr>"

text \<open>
  \<^verbatim>\<open>AIService._analyze_employee_retention\<close>. \<^verbatim>\<open>(now - emp.hire_date).days\<close> is the floor
  of the difference in days; \<^verbatim>\<open>sum(tenures) / len(tenures)\<close> divides two Python integers
  and raises ZeroDivisionError when the list is empty.
\<close>

definition analyze_employee_retention ::
  "int \<Rightarrow> Employee list \<Rightarrow> error + AIRecommendation list" where
  "analyze_employee_retention now emps =
     (let tenures = map (\<lambda>emp. (now - hire_date emp) div 86400) emps
      in if length tenures = 0 then Inl ZeroDivisionError
         else
           let avg_tenure = real_of_int (sum_list tenures) / real (length tenures)
           in if avg_tenure < 365 then Inr [retention_recommendation] else Inr [])"

definition invoice_recommendation :: "nat \<Rightarrow> AIRecommendation" where
  "invoice_recommendation n =
     \<lparr>rtype = ''invoice_processing'', message = OverdueInvoices n,
      impact = ''medium'', priority = ''high'',
      action_items = [Action ''Review and process overdue invoices'',
        Action ''Implement automated payment reminders'',
        Action ''Consider early payment discounts'']\<rparr>"

text \<open>\<^verbatim>\<open>AIService._analyze_invoices\<close>.\<close>

definition analyze_invoices :: "int \<Rightarrow> Invoice list \<Rightarrow> AIRecommendation list" where
  "analyze_invoices now invs =
     (let overdue_invoices = filter (\<lambda>inv. due_date inv < now \<and> status inv \<noteq> ''paid'') invs
      in if overdue_invoices \<noteq> [] then [invoice_recommendation (length overdue_invoices)]
         else [])"

text \<open>
  \<^verbatim>\<open>AIService.generate_recommendations\<close>: the three analyses in order; an exception in
  one of them ends the call.
\<close>

definition generate_recommendations ::
  "int \<Rightarrow> Transaction list \<Rightarrow> Employee list \<Rightarrow> Invoice list \<Rightarrow>
     error + AIRecommendation list" where
  "generate_recommendations now txs emps invs =
     (case analyze_expenses txs of
        Inl e \<Rightarrow> Inl e
      | Inr expense_recommendations \<Rightarrow>
          (case analyze_employee_retention now emps of
             Inl e \<Rightarrow> Inl e
           | Inr retention_recommendations \<Rightarrow>
               Inr (expense_recommendations @ retention_recommendations
                      @ analyze_invoices now invs)))"

text \<open>
  \<^verbatim>\<open>app/api/endpoints/erp.py: get_ai_recommendations\<close>: the data handed to the service
  depends on the caller's role.
\<close>

definition get_ai_recommendations ::
  "int \<Rightarrow> erp_db \<Rightarrow> UserRole \<Rightarrow> error + AIRecommendation list" where
  "get_ai_recommendations now db current_user_role =
     (if current_user_role = ADMIN then
        generate_recommendations now (transactions db) (employees db) (invoices db)
      else if current_user_role = FINANCE_MANAGER then
        generate_recommendations now
          (filter (\<lambda>t. type t \<in> set [INCOME, EXPENSE]) (transactions db)) [] (invoices db)
      else if current_user_role = HR_MANAGER then
        generate_recommendations now [] (employees db) []
      else
        generate_recommendations now [] [] (invoices db))"

subsection \<open>The specification's quantities\<close>








section \<open>Concrete inputs\<close>

subsection \<open>Concrete rows and actors\<close>

text \<open>A superuser, one lead and one task, used where a property is run on a concrete input.\<close>

definition demo_user :: User where
  "demo_user = \<lparr>user_id = 1, email = ''a@b.c'', is_active = True,
     is_superuser = Some True, role = Some ''sales''\<rparr>"

definition demo_lead :: row where
  "demo_lead = [''id'' \<mapsto> VInt 7, ''email'' \<mapsto> VStr ''x@y.z'', ''name'' \<mapsto> VStr ''Ann'',
     ''company'' \<mapsto> VStr ''Acme'', ''phone'' \<mapsto> VNone, ''status'' \<mapsto> VStr ''new'',
     ''source'' \<mapsto> VNone, ''score'' \<mapsto> VFloat 50, ''metadata'' \<mapsto> VNone,
     ''created_at'' \<mapsto> VTime 10, ''updated_at'' \<mapsto> VTime 10]"

definition demo_task :: row where
  "demo_task = [''id'' \<mapsto> VInt 3, ''title'' \<mapsto> VStr ''Audit'', ''description'' \<mapsto> VStr ''Q3'',
     ''status'' \<mapsto> VStr ''pending'', ''priority'' \<mapsto> VStr ''medium'', ''assigned_to'' \<mapsto> VInt 1,
     ''due_date'' \<mapsto> VNone, ''metadata'' \<mapsto> VNone,
     ''created_at'' \<mapsto> VTime 10, ''updated_at'' \<mapsto> VTime 10]"


definition ex :: "TransactionCategory \<Rightarrow> real \<Rightarrow> Transaction" where
  "ex c a = \<lparr>amount = a, type = EXPENSE, category = c, month = 1\<rparr>"

section \<open>Properties of the permission check and the entity store\<close>

lemma apply_payload_Nil: "apply_payload [] r = r"
  by (simp add: apply_payload_def)

lemma apply_payload_Cons: "apply_payload ((g, w) # p) r = apply_payload p (r(g \<mapsto> w))"
  by (simp add: apply_payload_def)

lemma apply_payload_absent:
  "f \<notin> fst ` set p \<Longrightarrow> apply_payload p r f = r f"
proof (induction p arbitrary: r)
  case Nil
  then show ?case by (simp add: apply_payload_Nil)
next
  case (Cons a p)
  obtain g w where a: "a = (g, w)" by (cases a)
  from Cons.prems a have ne: "g \<noteq> f" and nin: "f \<notin> fst ` set p" by auto
  have "apply_payload p (r(g \<mapsto> w)) f = (r(g \<mapsto> w)) f"
    by (rule Cons.IH [OF nin])
  also have "\<dots> = r f" using ne by simp
  finally show ?case by (simp only: a apply_payload_Cons)
qed

lemma apply_payload_present:
  "distinct (map fst p) \<Longrightarrow> (f, v) \<in> set p \<Longrightarrow> apply_payload p r f = Some v"
proof (induction p arbitrary: r)
  case Nil
  then show ?case by simp
next
  case (Cons a p)
  obtain g w where a: "a = (g, w)" by (cases a)
  show ?case
  proof (cases "(f, v) \<in> set p")
    case True
    with Cons a show ?thesis by (simp add: apply_payload_Cons)
  next
    case False
    with Cons.prems a have fv: "g = f" "w = v" and nin: "f \<notin> fst ` set p" by auto
    have "apply_payload p (r(f \<mapsto> v)) f = (r(f \<mapsto> v)) f"
      by (rule apply_payload_absent [OF nin])
    with a fv show ?thesis by (simp add: apply_payload_Cons)
  qed
qed

lemma commit_refresh_other:
  "f \<noteq> ''updated_at'' \<Longrightarrow> commit_refresh cols now loaded obj f = obj f"
  by (simp add: commit_refresh_def)

text \<open>
  C1. For every actor and required capability, \<open>check_permissions\<close> returns \<^verbatim>\<open>True\<close>
  exactly when the actor's role equals the required capability or the actor's superuser
  flag is set. The model is a function of the loaded actor and the capability alone, so
  it has no effect; the statement holds for every role string, in particular for each
  tag of the role enumeration.
\<close>

theorem check_permissions_iff:
  "check_permissions user required_role = Some True \<longleftrightarrow>
     role user = Some required_role \<or> is_superuser user = Some True"
  by (simp add: check_permissions_def)

text \<open>
  C9. For an identifier that resolves to no row of the table, \<open>get_lead\<close> and
  \<open>get_task\<close> fail with the 404 error and return no body at all.
\<close>

theorem get_unknown_id_not_found:
  assumes "db ident = None"
  shows "get_lead current_user db ident = Inl HTTP_404_NOT_FOUND
       \<and> get_task current_user db ident = Inl HTTP_404_NOT_FOUND
       \<and> (\<forall>body. get_lead current_user db ident \<noteq> Inr body)
       \<and> (\<forall>body. get_task current_user db ident \<noteq> Inr body)"
  using assms by (simp add: get_lead_def get_task_def)

theorem get_unknown_id_not_found_witness:
  "([7 \<mapsto> demo_lead] :: table) 8 = None
   \<and> get_lead demo_user [7 \<mapsto> demo_lead] 8 = Inl HTTP_404_NOT_FOUND
   \<and> get_task demo_user [7 \<mapsto> demo_lead] 8 = Inl HTTP_404_NOT_FOUND"
  using get_unknown_id_not_found [where db = "[7 \<mapsto> demo_lead]" and ident = 8
      and current_user = demo_user]
  by simp

lemma update_task_frame:
  assumes perm: "truthy (check_permissions u ''manager'')"
    and ex: "db ident = Some loaded" and d: "distinct (map fst payload)"
  shows "\<exists>r'. update_task now u db ident payload = Inr (r', db(ident \<mapsto> r')) \<and>
          (\<forall>f v. (f, v) \<in> set payload \<and> f \<noteq> ''updated_at'' \<longrightarrow> r' f = Some v) \<and>
          (\<forall>f. f \<notin> fst ` set payload \<and> f \<noteq> ''updated_at'' \<longrightarrow> r' f = loaded f)"
proof -
  let ?r = "commit_refresh task_columns now loaded (apply_payload payload loaded)"
  have 1: "update_task now u db ident payload = Inr (?r, db(ident \<mapsto> ?r))"
    using perm ex by (simp add: update_task_def Let_def)
  have 2: "\<forall>f v. (f, v) \<in> set payload \<and> f \<noteq> ''updated_at'' \<longrightarrow> ?r f = Some v"
    using d by (simp add: commit_refresh_other apply_payload_present)
  have 3: "\<forall>f. f \<notin> fst ` set payload \<and> f \<noteq> ''updated_at'' \<longrightarrow> ?r f = loaded f"
    by (simp add: commit_refresh_other apply_payload_absent)
  from 1 2 3 show ?thesis by blast
qed

lemma update_lead_frame:
  assumes ex: "db ident = Some loaded" and d: "distinct (map fst payload)"
    and res: "update_lead g now u db ident payload = Inr (r', db')"
  shows "db' = db(ident \<mapsto> r')"
    and "(f, v) \<in> set payload \<Longrightarrow> f \<noteq> ''updated_at'' \<Longrightarrow> f \<noteq> ''score'' \<Longrightarrow> r' f = Some v"
    and "f \<notin> fst ` set payload \<Longrightarrow> f \<noteq> ''updated_at'' \<Longrightarrow> f \<noteq> ''score'' \<Longrightarrow> r' f = loaded f"
    and "''score'' \<notin> fst ` set payload \<Longrightarrow> ''company'' \<notin> fst ` set payload \<Longrightarrow> ''industry'' \<notin> fst ` set payload
          \<Longrightarrow> r' ''score'' = loaded ''score''"
  using res ex d
  by (auto simp add: update_lead_def Let_def commit_refresh_other apply_payload_present
      apply_payload_absent split: if_splits sum.splits)

lemma update_lead_returns:
  assumes perm: "truthy (check_permissions u ''sales'')"
    and ex: "db ident = Some loaded"
    and ok: "(''company'' \<notin> fst ` set payload \<and> ''industry'' \<notin> fst ` set payload)
             \<or> (\<forall>d. \<not> isl (g d))"
  shows "\<not> isl (update_lead g now u db ident payload)"
proof (cases "list_ex (\<lambda>field. field \<in> set (map fst payload)) [''company'', ''industry'']")
  case False
  with perm ex show ?thesis by (simp add: update_lead_def Let_def)
next
  case True
  with ok have g: "\<forall>d. \<not> isl (g d)" by auto
  show ?thesis
    using perm ex True g
    by (simp add: update_lead_def Let_def split: sum.splits) (metis sum.disc(1))
qed

text \<open>
  C2, as the claim states it, fails on \<open>update_lead\<close>: a payload that sets only
  \<^verbatim>\<open>company\<close> also replaces \<^verbatim>\<open>score\<close> by the provider's new score (50 becomes 90), and
  the commit moves \<^verbatim>\<open>updated_at\<close> (10 becomes 20); neither field is in the payload.
\<close>

theorem update_lead_rescoring_counterexample:
  "update_lead (\<lambda>d. Inr 90) 20 demo_user [7 \<mapsto> demo_lead] 7 [(''company'', VStr ''Initech'')]
     = Inr (demo_lead(''company'' \<mapsto> VStr ''Initech'', ''score'' \<mapsto> VFloat 90, ''updated_at'' \<mapsto> VTime 20),
            [7 \<mapsto> demo_lead(''company'' \<mapsto> VStr ''Initech'', ''score'' \<mapsto> VFloat 90, ''updated_at'' \<mapsto> VTime 20)])
   \<and> demo_lead ''score'' = Some (VFloat 50)
   \<and> demo_lead ''updated_at'' = Some (VTime 10)
   \<and> ''score'' \<notin> fst ` set [(''company'', VStr ''Initech'')]
   \<and> ''updated_at'' \<notin> fst ` set [(''company'', VStr ''Initech'')]"
  by (simp add: update_lead_def truthy_def check_permissions_def demo_user_def commit_refresh_def
      apply_payload_def demo_lead_def lead_columns_def Let_def)

text \<open>
  C2, amended. For an existing row, a permitted caller and a payload (a dictionary, so
  with distinct keys), \<open>update_task\<close> and \<open>update_lead\<close> return the updated row and
  store it under the same identifier; every field of the payload holds the payload's
  value afterwards; every field the payload does not mention keeps its value, except
  \<^verbatim>\<open>updated_at\<close> (which the commit refreshes) and, on a lead, \<^verbatim>\<open>score\<close>, which keeps its
  value when the payload sets neither \<^verbatim>\<open>company\<close> nor \<^verbatim>\<open>industry\<close>. The lead update
  returns when the payload does not ask for a new score or the provider answers.
\<close>

theorem update_partial_frame:
  assumes "tasks tid = Some task" and "distinct (map fst task_update)"
    and "truthy (check_permissions tu ''manager'')"
    and "leads lid = Some lead" and "distinct (map fst lead_update)"
    and "truthy (check_permissions lu ''sales'')"
    and "(''company'' \<notin> fst ` set lead_update \<and> ''industry'' \<notin> fst ` set lead_update)
         \<or> (\<forall>d. \<not> isl (generate_lead_score d))"
  shows "(\<exists>t'. update_task now tu tasks tid task_update = Inr (t', tasks(tid \<mapsto> t')) \<and>
            (\<forall>f v. (f, v) \<in> set task_update \<and> f \<noteq> ''updated_at'' \<longrightarrow> t' f = Some v) \<and>
            (\<forall>f. f \<notin> fst ` set task_update \<and> f \<noteq> ''updated_at'' \<longrightarrow> t' f = task f))
       \<and> (\<exists>l'. update_lead generate_lead_score now lu leads lid lead_update
                   = Inr (l', leads(lid \<mapsto> l')) \<and>
            (\<forall>f v. (f, v) \<in> set lead_update \<and> f \<noteq> ''updated_at'' \<and> f \<noteq> ''score''
                \<longrightarrow> l' f = Some v) \<and>
            (\<forall>f. f \<notin> fst ` set lead_update \<and> f \<noteq> ''updated_at'' \<and> f \<noteq> ''score''
                \<longrightarrow> l' f = lead f) \<and>
            (''score'' \<notin> fst ` set lead_update \<and> ''company'' \<notin> fst ` set lead_update \<and>
             ''industry'' \<notin> fst ` set lead_update \<longrightarrow> l' ''score'' = lead ''score''))"
proof (rule conjI)
  show "\<exists>t'. update_task now tu tasks tid task_update = Inr (t', tasks(tid \<mapsto> t')) \<and>
            (\<forall>f v. (f, v) \<in> set task_update \<and> f \<noteq> ''updated_at'' \<longrightarrow> t' f = Some v) \<and>
            (\<forall>f. f \<notin> fst ` set task_update \<and> f \<noteq> ''updated_at'' \<longrightarrow> t' f = task f)"
    by (rule update_task_frame [where db = tasks and ident = tid, OF assms(3) assms(1) assms(2)])
next
  have "\<not> isl (update_lead generate_lead_score now lu leads lid lead_update)"
    by (rule update_lead_returns [where db = leads and ident = lid, OF assms(6) assms(4) assms(7)])
  then obtain l' db' where
    res: "update_lead generate_lead_score now lu leads lid lead_update = Inr (l', db')"
    by (cases "update_lead generate_lead_score now lu leads lid lead_update") auto
  note fr = update_lead_frame [where db = leads and ident = lid, OF assms(4) assms(5) res]
  have "update_lead generate_lead_score now lu leads lid lead_update
          = Inr (l', leads(lid \<mapsto> l'))"
    using res fr(1) by simp
  moreover have "\<forall>f v. (f, v) \<in> set lead_update \<and> f \<noteq> ''updated_at'' \<and> f \<noteq> ''score''
                \<longrightarrow> l' f = Some v"
    using fr(2) by blast
  moreover have "\<forall>f. f \<notin> fst ` set lead_update \<and> f \<noteq> ''updated_at'' \<and> f \<noteq> ''score''
                \<longrightarrow> l' f = lead f"
    using fr(3) by blast
  moreover have "''score'' \<notin> fst ` set lead_update \<and> ''company'' \<notin> fst ` set lead_update \<and>
             ''industry'' \<notin> fst ` set lead_update \<longrightarrow> l' ''score'' = lead ''score''"
    using fr(4) by blast
  ultimately show "\<exists>l'. update_lead generate_lead_score now lu leads lid lead_update
                   = Inr (l', leads(lid \<mapsto> l')) \<and>
            (\<forall>f v. (f, v) \<in> set lead_update \<and> f \<noteq> ''updated_at'' \<and> f \<noteq> ''score''
                \<longrightarrow> l' f = Some v) \<and>
            (\<forall>f. f \<notin> fst ` set lead_update \<and> f \<noteq> ''updated_at'' \<and> f \<noteq> ''score''
                \<longrightarrow> l' f = lead f) \<and>
            (''score'' \<notin> fst ` set lead_update \<and> ''company'' \<notin> fst ` set lead_update \<and>
             ''industry'' \<notin> fst ` set lead_update \<longrightarrow> l' ''score'' = lead ''score'')"
    by blast
qed

theorem update_partial_frame_witness:
  "(\<exists>t'. update_task 20 demo_user [3 \<mapsto> demo_task] 3 [(''status'', VStr ''done'')]
            = Inr (t', [3 \<mapsto> t']) \<and>
          t' ''status'' = Some (VStr ''done'') \<and> t' ''title'' = Some (VStr ''Audit''))
   \<and> (\<exists>l'. update_lead (\<lambda>d. Inl ValueError) 20 demo_user [7 \<mapsto> demo_lead] 7
              [(''phone'', VStr ''555'')] = Inr (l', [7 \<mapsto> l']) \<and>
          l' ''phone'' = Some (VStr ''555'') \<and> l' ''name'' = Some (VStr ''Ann'') \<and>
          l' ''score'' = Some (VFloat 50))"
proof -
  have t: "([3 \<mapsto> demo_task] :: table) 3 = Some demo_task" by simp
  have l: "([7 \<mapsto> demo_lead] :: table) 7 = Some demo_lead" by simp
  have dt: "distinct (map fst [(''status'', VStr ''done'')])" by simp
  have dl: "distinct (map fst [(''phone'', VStr ''555'')])" by simp
  have pm: "truthy (check_permissions demo_user ''manager'')"
    by (simp add: truthy_def check_permissions_def demo_user_def)
  have ps: "truthy (check_permissions demo_user ''sales'')"
    by (simp add: truthy_def check_permissions_def demo_user_def)
  have g: "(''company'' \<notin> fst ` set [(''phone'', VStr ''555'')] \<and>
            ''industry'' \<notin> fst ` set [(''phone'', VStr ''555'')])
           \<or> (\<forall>d. \<not> isl ((\<lambda>d. Inl ValueError :: error + real) d))" by simp
  note th = update_partial_frame [where tasks = "[3 \<mapsto> demo_task]" and tid = 3
      and leads = "[7 \<mapsto> demo_lead]" and lid = 7 and now = 20, OF t dt pm l dl ps g, unfolded fun_upd_upd]
  from th [THEN conjunct1] obtain t' where
    T: "update_task 20 demo_user [3 \<mapsto> demo_task] 3 [(''status'', VStr ''done'')]
           = Inr (t', [3 \<mapsto> t']) \<and>
        (\<forall>f v. (f, v) \<in> set [(''status'', VStr ''done'')] \<and> f \<noteq> ''updated_at''
               \<longrightarrow> t' f = Some v) \<and>
        (\<forall>f. f \<notin> fst ` set [(''status'', VStr ''done'')] \<and> f \<noteq> ''updated_at''
               \<longrightarrow> t' f = demo_task f)" ..
  from th [THEN conjunct2] obtain l' where
    L: "update_lead (\<lambda>d. Inl ValueError) 20 demo_user [7 \<mapsto> demo_lead] 7
           [(''phone'', VStr ''555'')] = Inr (l', [7 \<mapsto> l']) \<and>
        (\<forall>f v. (f, v) \<in> set [(''phone'', VStr ''555'')] \<and> f \<noteq> ''updated_at''
               \<and> f \<noteq> ''score'' \<longrightarrow> l' f = Some v) \<and>
        (\<forall>f. f \<notin> fst ` set [(''phone'', VStr ''555'')] \<and> f \<noteq> ''updated_at''
               \<and> f \<noteq> ''score'' \<longrightarrow> l' f = demo_lead f) \<and>
        (''score'' \<notin> fst ` set [(''phone'', VStr ''555'')] \<and>
             ''company'' \<notin> fst ` set [(''phone'', VStr ''555'')] \<and>
             ''industry'' \<notin> fst ` set [(''phone'', VStr ''555'')]
               \<longrightarrow> l' ''score'' = demo_lead ''score'')" ..
  note t1 = T [THEN conjunct1]
  note t2 = T [THEN conjunct2, THEN conjunct1]
  note t3 = T [THEN conjunct2, THEN conjunct2]
  note l1 = L [THEN conjunct1]
  note l2 = L [THEN conjunct2, THEN conjunct1]
  note l3 = L [THEN conjunct2, THEN conjunct2, THEN conjunct1]
  note l4 = L [THEN conjunct2, THEN conjunct2, THEN conjunct2]
  have a: "t' ''status'' = Some (VStr ''done'')"
    using t2 [rule_format, of "''status''" "VStr ''done''"] by simp
  have b: "t' ''title'' = Some (VStr ''Audit'')"
    using t3 [rule_format, of "''title''"] by (simp add: demo_task_def)
  have c: "l' ''phone'' = Some (VStr ''555'')"
    using l2 [rule_format, of "''phone''" "VStr ''555''"] by simp
  have d: "l' ''name'' = Some (VStr ''Ann'')"
    using l3 [rule_format, of "''name''"] by (simp add: demo_lead_def)
  have e: "l' ''score'' = Some (VFloat 50)"
    using l4 by (simp add: demo_lead_def)
  show ?thesis
    by (intro conjI exI [of _ t'] exI [of _ l'] t1 l1 a b c d e)
qed

section \<open>Properties of the analytics\<close>

subsection \<open>Short series\<close>









subsection \<open>Retention analysis without employees\<close>

lemma high_spending_error: "high_spending t items recs = Inl e \<Longrightarrow> e = ZeroDivisionError"
  by (induction t items recs rule: high_spending.induct) (auto simp: Let_def split: if_splits)

lemma analyze_expenses_error: "analyze_expenses txs = Inl e \<Longrightarrow> e = ZeroDivisionError"
  unfolding analyze_expenses_def Let_def by (rule high_spending_error)

lemma generate_recommendations_no_employees:
  "generate_recommendations now txs [] invs = Inl ZeroDivisionError"
proof (cases "analyze_expenses txs")
  case (Inl e)
  with analyze_expenses_error [OF Inl] show ?thesis
    by (simp add: generate_recommendations_def)
next
  case (Inr recs)
  then show ?thesis
    by (simp add: generate_recommendations_def analyze_employee_retention_def)
qed

text \<open>
  C10. With an empty employee list the retention analysis divides by the number of
  employees, zero, and fails with ZeroDivisionError instead of returning the empty list;
  the recommendations endpoint passes the empty list for a finance manager and for an
  operations manager, so it fails for both, whatever the data.
\<close>

theorem retention_empty_division_by_zero:
  "analyze_employee_retention now [] = Inl ZeroDivisionError
   \<and> analyze_employee_retention now [] \<noteq> Inr []
   \<and> get_ai_recommendations now db FINANCE_MANAGER = Inl ZeroDivisionError
   \<and> get_ai_recommendations now db OPERATIONS_MANAGER = Inl ZeroDivisionError"
  by (simp add: analyze_employee_retention_def get_ai_recommendations_def
      generate_recommendations_no_employees)

subsection \<open>The float statistics on finite data\<close>



















subsection \<open>Confidence\<close>





subsection \<open>Factors\<close>
















subsection \<open>Scaling\<close>











subsection \<open>Expense optimization\<close>





















end
